theory Spec2Isabelle
  imports Main
begin

section \<open>The SE3 manifold metric: \<open>ManifoldMetric<variables::SE3<TScalar>>\<close>\<close>

text \<open>
  The class is a template over the scalar type and computes with three member functions of
  the SE3 pose type (\<open>gInv\<close>, \<open>gPlus\<close>, \<open>gLog\<close>) and with the matrix product of the dense
  matrix library (\<open>lazyProduct\<close>). None of the four is defined in the metric's file, so the
  embedding takes them as parameters: a pose is a value of type \<open>'p\<close>, a tangent vector of
  type \<open>'t\<close>, a 6 x 6 Jacobian of type \<open>'j\<close>.

  A primitive of the source takes one pointer per derivative it can write
  (\<open>nullptr\<close>: not requested) and the two convention flags. In the embedding a pointer
  argument is the boolean "a destination is supplied", and the primitive returns, next to its
  principal value, the matrix it leaves in each destination. The caller reads such a matrix
  only where it supplied the destination.
\<close>

record ('p, 't, 'j) primitives =
  gInv :: "'p \<Rightarrow> bool \<Rightarrow> bool \<Rightarrow> bool \<Rightarrow> 'p \<times> 'j"
  gPlus :: "'p \<Rightarrow> 'p \<Rightarrow> bool \<Rightarrow> bool \<Rightarrow> bool \<Rightarrow> bool \<Rightarrow> 'p \<times> 'j \<times> 'j"
  gLog :: "'p \<Rightarrow> bool \<Rightarrow> bool \<Rightarrow> bool \<Rightarrow> 't \<times> 'j"
  lazyProduct :: "'j \<Rightarrow> 'j \<Rightarrow> 'j"
  kGlobal :: bool
  kCoupled :: bool

text \<open>
  Modelled from the spec: the default arguments of \<open>gInv\<close>, \<open>gPlus\<close> and \<open>gLog\<close>, whose
  declarations (hyper/variables/groups) are not among the sources. A call that leaves the
  arguments out, as \<open>lhs_.gPlus(rhs_.gInv()).gLog()\<close> does, supplies no derivative
  destination and uses the process-wide default convention. That convention is the pair of
  build-time macros the metric's file names \<open>kGlobal\<close> and \<open>kCoupled\<close>; the macros are
  not defined among the sources, so their values are the two fields of these names.
\<close>

definition gInv_default :: "('p, 't, 'j) primitives \<Rightarrow> 'p \<Rightarrow> 'p \<times> 'j" where
  "gInv_default P x = gInv P x False (kGlobal P) (kCoupled P)"

definition gPlus_default :: "('p, 't, 'j) primitives \<Rightarrow> 'p \<Rightarrow> 'p \<Rightarrow> 'p \<times> 'j \<times> 'j" where
  "gPlus_default P x y = gPlus P x y False False (kGlobal P) (kCoupled P)"

definition gLog_default :: "('p, 't, 'j) primitives \<Rightarrow> 'p \<Rightarrow> 't \<times> 'j" where
  "gLog_default P x = gLog P x False (kGlobal P) (kCoupled P)"

subsection \<open>The stateless entry points\<close>

text \<open>
  What a call of the raw-pointer \<open>Distance\<close> leaves in the caller's buffers: the tangent
  vector in \<open>output\<close>, and a Jacobian in each of \<open>J_lhs\<close> and \<open>J_rhs\<close> that is not
  \<open>nullptr\<close> (\<open>None\<close>: the pointer is null and nothing is written). The buffers are taken to
  be distinct from one another and from the two poses.
\<close>

record ('t, 'j) buffers =
  output_buf :: 't
  J_lhs_buf :: "'j option"
  J_rhs_buf :: "'j option"

definition Distance ::
  "('p, 't, 'j) primitives \<Rightarrow> 'p \<Rightarrow> 'p \<Rightarrow> bool \<Rightarrow> bool \<Rightarrow> bool \<Rightarrow> bool \<Rightarrow> ('t, 'j) buffers" where
  "Distance P lhs rhs J_lhs J_rhs global coupled =
    (if J_lhs \<or> J_rhs then
       if J_lhs \<and> J_rhs then
         let (i_rhs, J_ir_r) = gInv P rhs True global coupled;
             (lhs_plus_i_rhs, J_p_l, J_p_ir) = gPlus P lhs i_rhs True True global coupled;
             (output, J_t_p) = gLog P lhs_plus_i_rhs True global coupled
         in \<lparr>output_buf = output,
             J_lhs_buf = Some (lazyProduct P J_t_p J_p_l),
             J_rhs_buf = Some (lazyProduct P J_t_p (lazyProduct P J_p_ir J_ir_r))\<rparr>
       else if J_lhs then
         let (i_rhs, _) = gInv P rhs False global coupled;
             (lhs_plus_i_rhs, J_p_l, _) = gPlus P lhs i_rhs True False global coupled;
             (output, J_t_p) = gLog P lhs_plus_i_rhs True global coupled
         in \<lparr>output_buf = output,
             J_lhs_buf = Some (lazyProduct P J_t_p J_p_l),
             J_rhs_buf = None\<rparr>
       else
         let (i_rhs, J_ir_r) = gInv P rhs True global coupled;
             (lhs_plus_i_rhs, _, J_p_ir) = gPlus P lhs i_rhs False True global coupled;
             (output, J_t_p) = gLog P lhs_plus_i_rhs True global coupled
         in \<lparr>output_buf = output,
             J_lhs_buf = None,
             J_rhs_buf = Some (lazyProduct P J_t_p (lazyProduct P J_p_ir J_ir_r))\<rparr>
     else
       \<lparr>output_buf = fst (gLog_default P (fst (gPlus_default P lhs (fst (gInv_default P rhs))))),
        J_lhs_buf = None,
        J_rhs_buf = None\<rparr>)"

text \<open>
  The overload on \<open>Eigen::Ref\<close> arguments runs the raw-pointer overload on the same pose
  data with a local tangent vector as the output buffer, and returns that vector; the
  Jacobians still go to the caller's pointers.
\<close>

definition Distance_ref ::
  "('p, 't, 'j) primitives \<Rightarrow> 'p \<Rightarrow> 'p \<Rightarrow> bool \<Rightarrow> bool \<Rightarrow> bool \<Rightarrow> bool \<Rightarrow> 't \<times> 'j option \<times> 'j option" where
  "Distance_ref P lhs rhs J_lhs J_rhs global coupled =
    (let b = Distance P lhs rhs J_lhs J_rhs global coupled
     in (output_buf b, J_lhs_buf b, J_rhs_buf b))"

subsection \<open>The metric instance\<close>

text \<open>
  The instance holds the two private members \<open>global_\<close> and \<open>coupled_\<close> (fields
  \<open>global_m\<close> and \<open>coupled_m\<close> here: a name cannot end in an underscore), set by the
  constructor and never written again.
\<close>

record metric =
  global_m :: bool
  coupled_m :: bool

definition ManifoldMetric :: "bool \<Rightarrow> bool \<Rightarrow> metric" where
  "ManifoldMetric global coupled = \<lparr>global_m = global, coupled_m = coupled\<rparr>"

definition distance ::
  "('p, 't, 'j) primitives \<Rightarrow> metric \<Rightarrow> 'p \<Rightarrow> 'p \<Rightarrow> bool \<Rightarrow> bool \<Rightarrow> ('t, 'j) buffers" where
  "distance P M lhs rhs J_lhs J_rhs = Distance P lhs rhs J_lhs J_rhs (global_m M) (coupled_m M)"

definition distance_ref ::
  "('p, 't, 'j) primitives \<Rightarrow> metric \<Rightarrow> 'p \<Rightarrow> 'p \<Rightarrow> bool \<Rightarrow> bool \<Rightarrow> 't \<times> 'j option \<times> 'j option" where
  "distance_ref P M lhs rhs J_lhs J_rhs =
    Distance_ref P lhs rhs J_lhs J_rhs (global_m M) (coupled_m M)"

text \<open>
  Modelled from the spec: \<open>Input::kNumParameters\<close> and \<open>Output::kNumParameters\<close>, the
  parameter counts of the pose type \<open>SE3<TScalar>\<close> and of its tangent type, which are
  declared in hyper/variables/groups and are not among the sources. The spec gives 7 for a
  pose (a translation and a quaternion) and 6 for a tangent vector.
\<close>

definition Input_kNumParameters :: int where
  "Input_kNumParameters = 7"

definition Output_kNumParameters :: int where
  "Output_kNumParameters = 6"

definition kInputSize :: int where
  "kInputSize = Input_kNumParameters"

definition kOutputSize :: int where
  "kOutputSize = Output_kNumParameters"

definition inputSize :: "metric \<Rightarrow> int" where
  "inputSize M = kInputSize"

definition outputSize :: "metric \<Rightarrow> int" where
  "outputSize M = kOutputSize"

subsection \<open>The contract of the primitives\<close>

text \<open>
  Modelled from the spec: the contract of \<open>gInv\<close>, \<open>gPlus\<close> and \<open>gLog\<close> (hyper/variables/groups,
  not among the sources) on derivative destinations. A primitive "always returns its
  principal value, and additionally writes the derivative if a destination was supplied":
  the principal value does not depend on which destinations are supplied, and the
  derivative written to one destination of \<open>gPlus\<close> does not depend on whether the other
  destination is supplied (the "same derivative formula" on a partial and on the full path).
\<close>

definition request_independent :: "('p, 't, 'j) primitives \<Rightarrow> bool" where
  "request_independent P \<longleftrightarrow>
     (\<forall>x J g c. fst (gInv P x J g c) = fst (gInv P x False g c)) \<and>
     (\<forall>x y Jt Jo g c. fst (gPlus P x y Jt Jo g c) = fst (gPlus P x y False False g c)) \<and>
     (\<forall>x J g c. fst (gLog P x J g c) = fst (gLog P x False g c)) \<and>
     (\<forall>x y Jo g c. fst (snd (gPlus P x y True Jo g c)) = fst (snd (gPlus P x y True True g c))) \<and>
     (\<forall>x y Jt g c. snd (snd (gPlus P x y Jt True g c)) = snd (snd (gPlus P x y True True g c)))"

text \<open>
  Modelled from the spec: the group laws of the primitives (hyper/variables/groups, not among
  the sources). The inverse is "the group operation producing the pose that composes with a
  given pose to the identity", and the logarithm is the "tangent-space representation
  relative to the group identity", so the identity pose has the zero tangent vector. Both
  are stated for exact arithmetic, under every convention and whatever derivatives are
  requested.
\<close>

definition group_laws :: "('p, 't, 'j) primitives \<Rightarrow> ('p \<Rightarrow> bool) \<Rightarrow> 'p \<Rightarrow> 't \<Rightarrow> bool" where
  "group_laws P valid identity zero \<longleftrightarrow>
     (\<forall>p J Jt Jo g c. valid p \<longrightarrow> fst (gPlus P p (fst (gInv P p J g c)) Jt Jo g c) = identity) \<and>
     (\<forall>J g c. fst (gLog P identity J g c) = zero)"

text \<open>
  Modelled from the spec: the primitives (hyper/variables/groups, not among the sources) on
  poses with the identity rotation. SE3 is "the Lie group of rigid-body transformations
  (rotation + translation)": \<open>translated v\<close> is the pose with the identity rotation and the
  translation \<open>v\<close>, \<open>linear v\<close> the tangent vector with zero rotation and the translation
  \<open>v\<close>. Such poses compose by adding their translations, invert by negating it, and have
  the tangent vector of the same translation, under every convention.
\<close>

type_synonym 'a vec3 = "'a \<times> 'a \<times> 'a"

fun vplus :: "'a::ring_1 vec3 \<Rightarrow> 'a vec3 \<Rightarrow> 'a vec3" where
  "vplus (x1, y1, z1) (x2, y2, z2) = (x1 + x2, y1 + y2, z1 + z2)"

fun vneg :: "'a::ring_1 vec3 \<Rightarrow> 'a vec3" where
  "vneg (x, y, z) = (- x, - y, - z)"

definition translation_laws ::
  "('p, 't, 'j) primitives \<Rightarrow> ('a::ring_1 vec3 \<Rightarrow> 'p) \<Rightarrow> ('a vec3 \<Rightarrow> 't) \<Rightarrow> bool" where
  "translation_laws P translated linear \<longleftrightarrow>
     (\<forall>v J g c. fst (gInv P (translated v) J g c) = translated (vneg v)) \<and>
     (\<forall>u v Jt Jo g c.
        fst (gPlus P (translated u) (translated v) Jt Jo g c) = translated (vplus u v)) \<and>
     (\<forall>v J g c. fst (gLog P (translated v) J g c) = linear v)"

subsection \<open>Three instances of the primitives\<close>

text \<open>
  The first instance records the calls: a pose or tangent vector is the list of the
  primitive calls that produced it, each with the derivative destinations it was given and
  its two flags; a Jacobian is the name of the derivative, or a product of two.
\<close>

datatype call =
  Call_gInv bool bool bool
  | Call_gPlus bool bool bool bool
  | Call_gLog bool bool bool

datatype derivative =
  D_gInv
  | D_gPlus_this
  | D_gPlus_other
  | D_gLog
  | Product derivative derivative

fun convention :: "call \<Rightarrow> bool \<times> bool" where
  "convention (Call_gInv J g c) = (g, c)"
| "convention (Call_gPlus Jt Jo g c) = (g, c)"
| "convention (Call_gLog J g c) = (g, c)"

definition recorder :: "bool \<Rightarrow> bool \<Rightarrow> (call list, call list, derivative) primitives" where
  "recorder dg dc =
     \<lparr>gInv = (\<lambda>x J g c. (x @ [Call_gInv J g c], D_gInv)),
      gPlus = (\<lambda>x y Jt Jo g c. (x @ y @ [Call_gPlus Jt Jo g c], D_gPlus_this, D_gPlus_other)),
      gLog = (\<lambda>x J g c. (x @ [Call_gLog J g c], D_gLog)),
      lazyProduct = Product,
      kGlobal = dg,
      kCoupled = dc\<rparr>"

text \<open>
  The second instance is SE3 restricted to the translations of the integer lattice: a pose
  is its translation (the rotation is the identity), a tangent vector is the pair of its
  angular and linear parts, and a Jacobian \<open>k\<close> stands for \<open>k\<close> times the identity matrix.
\<close>

definition lattice ::
  "bool \<Rightarrow> bool \<Rightarrow> (int vec3, int vec3 \<times> int vec3, int) primitives" where
  "lattice dg dc =
     \<lparr>gInv = (\<lambda>x J g c. (vneg x, - 1)),
      gPlus = (\<lambda>x y Jt Jo g c. (vplus x y, 1, 1)),
      gLog = (\<lambda>x J g c. (((0, 0, 0), x), 1)),
      lazyProduct = (\<lambda>a b. a * b),
      kGlobal = dg,
      kCoupled = dc\<rparr>"


section \<open>Properties\<close>

subsection \<open>Facts about the contract and the lattice instance\<close>

lemma request_independentD:
  assumes "request_independent P"
  shows "fst (gInv P x True g c) = fst (gInv P x False g c)"
    and "fst (gPlus P x y True True g c) = fst (gPlus P x y False False g c)"
    and "fst (gPlus P x y True False g c) = fst (gPlus P x y False False g c)"
    and "fst (gPlus P x y False True g c) = fst (gPlus P x y False False g c)"
    and "fst (gLog P x True g c) = fst (gLog P x False g c)"
    and "fst (snd (gPlus P x y True False g c)) = fst (snd (gPlus P x y True True g c))"
    and "snd (snd (gPlus P x y False True g c)) = snd (snd (gPlus P x y True True g c))"
  using assms unfolding request_independent_def by metis+

text \<open>
  The three paths that compute a Jacobian pass the flags of the call to every primitive, so
  their tangent vectors agree under the contract on derivative destinations alone.
\<close>

lemma Distance_jacobian_paths_agree:
  assumes "request_independent P" and "J_lhs \<or> J_rhs" and "J_lhs' \<or> J_rhs'"
  shows "output_buf (Distance P lhs rhs J_lhs J_rhs global coupled) =
           output_buf (Distance P lhs rhs J_lhs' J_rhs' global coupled)"
  using assms(2,3)
  by (auto simp add: Distance_def case_prod_beta request_independentD [OF assms(1)])



lemma lattice_group_laws:
  "group_laws (lattice dg dc) (\<lambda>p. True) (0, 0, 0) ((0, 0, 0), (0, 0, 0))"
  by (auto simp add: group_laws_def lattice_def)

lemma lattice_translation_laws:
  "translation_laws (lattice dg dc) (\<lambda>v. v) (\<lambda>v. ((0, 0, 0), v))"
  by (simp add: translation_laws_def lattice_def)

subsection \<open>The tangent vector\<close>





text \<open>
  C5. For primitives that keep the group laws, the distance of a valid pose to itself is the
  zero tangent vector, on every path and under every combination of the two flags.
\<close>

theorem Distance_self_zero:
  assumes "group_laws P valid identity zero" and "valid p"
  shows "output_buf (Distance P p p J_lhs J_rhs global coupled) = zero"
  using assms
  by (simp add: Distance_def gInv_default_def gPlus_default_def gLog_default_def
      case_prod_beta group_laws_def)

theorem Distance_self_zero_witness:
  "group_laws (lattice False True) (\<lambda>p. True) (0, 0, 0) ((0, 0, 0), (0, 0, 0)) \<and>
   output_buf (Distance (lattice False True) (1, 2, 3) (1, 2, 3) True True True False) =
     ((0, 0, 0), (0, 0, 0)) \<and>
   output_buf (Distance (lattice False True) (1, 2, 3) (1, 2, 3) False False False False) =
     ((0, 0, 0), (0, 0, 0))"
  using Distance_self_zero [where P = "lattice False True" and valid = "\<lambda>p. True"
      and identity = "(0, 0, 0)" and zero = "((0, 0, 0), (0, 0, 0))" and p = "(1, 2, 3)"
      and J_lhs = True and J_rhs = True and global = True and coupled = False]
    Distance_self_zero [where P = "lattice False True" and valid = "\<lambda>p. True"
      and identity = "(0, 0, 0)" and zero = "((0, 0, 0), (0, 0, 0))" and p = "(1, 2, 3)"
      and J_lhs = False and J_rhs = False and global = False and coupled = False]
    lattice_group_laws [of False True]
  by simp

text \<open>
  C8. For primitives that treat poses with the identity rotation as translations, the
  distance from the pose translated by (1, 0, 0) to the identity pose is the tangent vector
  with zero rotation and the translation (-1, 0, 0), on every path, whether \<open>coupled\<close> is
  true or false.
\<close>

theorem Distance_unit_translation:
  assumes "translation_laws P translated linear"
  shows "output_buf (Distance P (translated (0, 0, 0)) (translated (1, 0, 0))
           J_lhs J_rhs global coupled) = linear (- 1, 0, 0)"
  using assms
  by (simp add: Distance_def gInv_default_def gPlus_default_def gLog_default_def
      case_prod_beta translation_laws_def)

theorem Distance_unit_translation_witness:
  "translation_laws (lattice False True) (\<lambda>v. v) (\<lambda>v. ((0, 0, 0), v)) \<and>
   output_buf (Distance (lattice False True) (0, 0, 0) (1, 0, 0) False False False True) =
     ((0, 0, 0), (- 1, 0, 0)) \<and>
   output_buf (Distance (lattice False True) (0, 0, 0) (1, 0, 0) False False False False) =
     ((0, 0, 0), (- 1, 0, 0))"
  using Distance_unit_translation [where P = "lattice False True" and translated = "\<lambda>v. v"
      and linear = "\<lambda>v. ((0, 0, 0), v)" and J_lhs = False and J_rhs = False
      and global = False and coupled = True]
    Distance_unit_translation [where P = "lattice False True" and translated = "\<lambda>v. v"
      and linear = "\<lambda>v. ((0, 0, 0), v)" and J_lhs = False and J_rhs = False
      and global = False and coupled = False]
    lattice_translation_laws [of False True]
  by simp

subsection \<open>The Jacobians and the calls\<close>

text \<open>
  C3. When only \<open>J_lhs\<close> is requested, \<open>gInv\<close> is called on \<open>rhs\<close> with no derivative
  destination, \<open>gPlus\<close> with a destination for the derivative in its first argument only,
  \<open>gLog\<close> with a destination, and \<open>J_lhs\<close> receives the product of the derivative of
  \<open>gLog\<close> and the derivative of \<open>gPlus\<close> in its first argument; \<open>J_rhs\<close> is not written.
  The second equation shows the same on the recorded calls.
\<close>

theorem Distance_J_lhs_only:
  "Distance P lhs rhs True False global coupled =
     (let i_rhs = fst (gInv P rhs False global coupled);
          p = gPlus P lhs i_rhs True False global coupled;
          l = gLog P (fst p) True global coupled
      in \<lparr>output_buf = fst l,
          J_lhs_buf = Some (lazyProduct P (snd l) (fst (snd p))),
          J_rhs_buf = None\<rparr>) \<and>
   Distance (recorder dg dc) [] [] True False global coupled =
     \<lparr>output_buf = [Call_gInv False global coupled, Call_gPlus True False global coupled,
                    Call_gLog True global coupled],
      J_lhs_buf = Some (Product D_gLog D_gPlus_this),
      J_rhs_buf = None\<rparr>"
  by (simp add: Distance_def case_prod_beta Let_def recorder_def)

text \<open>
  C4. When only \<open>J_rhs\<close> is requested, \<open>gInv\<close> is called on \<open>rhs\<close> with a derivative
  destination, \<open>gPlus\<close> with a destination for the derivative in its second argument
  only, \<open>gLog\<close> with a destination, and \<open>J_rhs\<close> receives the product of the derivative of
  \<open>gLog\<close> with the product of the derivative of \<open>gPlus\<close> in its second argument and the
  derivative of \<open>gInv\<close>; \<open>J_lhs\<close> is not written.
\<close>

theorem Distance_J_rhs_only:
  "Distance P lhs rhs False True global coupled =
     (let i = gInv P rhs True global coupled;
          p = gPlus P lhs (fst i) False True global coupled;
          l = gLog P (fst p) True global coupled
      in \<lparr>output_buf = fst l,
          J_lhs_buf = None,
          J_rhs_buf = Some (lazyProduct P (snd l) (lazyProduct P (snd (snd p)) (snd i)))\<rparr>) \<and>
   Distance (recorder dg dc) [] [] False True global coupled =
     \<lparr>output_buf = [Call_gInv True global coupled, Call_gPlus False True global coupled,
                    Call_gLog True global coupled],
      J_lhs_buf = None,
      J_rhs_buf = Some (Product D_gLog (Product D_gPlus_other D_gInv))\<rparr>"
  by (simp add: Distance_def case_prod_beta Let_def recorder_def)

text \<open>
  C6. One evaluation of \<open>Distance\<close> makes three primitive calls, \<open>gInv\<close>, \<open>gPlus\<close> and
  \<open>gLog\<close> in this order, and all three get the same pair of flags: the flags of the call
  when a Jacobian is requested, the default pair when none is.
\<close>

theorem Distance_one_convention:
  "(let f = (if J_lhs \<or> J_rhs then (global, coupled) else (dg, dc));
        calls = output_buf (Distance (recorder dg dc) [] [] J_lhs J_rhs global coupled)
    in calls = [Call_gInv J_rhs (fst f) (snd f), Call_gPlus J_lhs J_rhs (fst f) (snd f),
                Call_gLog (J_lhs \<or> J_rhs) (fst f) (snd f)] \<and>
       map convention calls = [f, f, f])"
  by (simp add: Distance_def gInv_default_def gPlus_default_def gLog_default_def
      recorder_def Let_def)

subsection \<open>The entry points\<close>

text \<open>
  C7. Both instance-bound entry points of an instance constructed with the flags \<open>(g, c)\<close>
  give what the stateless entry point of the same signature gives when called with
  \<open>(g, c)\<close>: the same tangent vector and the same Jacobians.
\<close>

theorem distance_forwards:
  "distance P (ManifoldMetric g c) lhs rhs J_lhs J_rhs = Distance P lhs rhs J_lhs J_rhs g c \<and>
   distance_ref P (ManifoldMetric g c) lhs rhs J_lhs J_rhs =
     Distance_ref P lhs rhs J_lhs J_rhs g c"
  by (simp add: distance_def distance_ref_def ManifoldMetric_def)

text \<open>
  C10. The stateless overload on \<open>Eigen::Ref\<close> arguments returns the tangent vector that
  the raw-pointer overload writes to \<open>output\<close>, and leaves in \<open>J_lhs\<close> and \<open>J_rhs\<close> what the
  raw-pointer overload leaves there, for the same poses, pointers and flags.
\<close>

theorem Distance_ref_agrees:
  "Distance_ref P lhs rhs J_lhs J_rhs global coupled =
     (output_buf (Distance P lhs rhs J_lhs J_rhs global coupled),
      J_lhs_buf (Distance P lhs rhs J_lhs J_rhs global coupled),
      J_rhs_buf (Distance P lhs rhs J_lhs J_rhs global coupled))"
  by (simp add: Distance_ref_def Let_def)

text \<open>
  C9. Every metric instance, whatever its convention flags, reports the output size 6 (the
  dimension of the tangent space) and the input size 7 (the parameters of a pose).
\<close>

theorem sizes_fixed: "outputSize M = 6 \<and> inputSize M = 7"
  by (simp add: outputSize_def inputSize_def kOutputSize_def kInputSize_def
      Output_kNumParameters_def Input_kNumParameters_def)

end
